theory Spec2Isabelle
  imports Complex_Main "HOL-Library.Multiset" "HOL-Library.Sublist" "HOL-Library.Code_Target_Nat"
begin

section \<open>Python values of app2.py\<close>

text \<open>
  A Python \<open>str\<close> is a sequence of Unicode code points, so it is modelled as a list of
  natural numbers (one per code point) and not as a list of bytes: \<open>str.strip\<close> decides
  character by character, and several of the characters it removes lie beyond ASCII.
  \<open>lit\<close> turns an ASCII literal of the source into such a string.
\<close>

type_synonym pystr = "nat list"

definition lit :: "string \<Rightarrow> pystr" where
  "lit s = map of_char s"

text \<open>
  \<open>str.isspace\<close> for one code point: the white space characters of CPython's Unicode
  database (tab to carriage return, the four separators 0x1C to 0x1F, space, NEL, the
  no-break space, and the Unicode space separators).
\<close>

definition is_space :: "nat \<Rightarrow> bool" where
  "is_space c =
     ((9 \<le> c \<and> c \<le> 13) \<or> (28 \<le> c \<and> c \<le> 32) \<or> c = 133 \<or> c = 160 \<or> c = 5760 \<or>
      (8192 \<le> c \<and> c \<le> 8202) \<or> c = 8232 \<or> c = 8233 \<or> c = 8239 \<or> c = 8287 \<or>
      c = 12288)"

text \<open>\<open>s.strip()\<close>: the white space at both ends of \<open>s\<close> is removed.\<close>

definition strip :: "pystr \<Rightarrow> pystr" where
  "strip s = rev (dropWhile is_space (rev (dropWhile is_space s)))"

text \<open>
  Exceptions. Every exception of the model is an instance of \<open>Exception\<close>; \<open>cls\<close> is the
  class it was raised with and \<open>detail\<close> is \<open>str(e)\<close>, the text an f-string prints for it.
  \<open>OpenAIErrorClass\<close> stands for \<open>openai.error.OpenAIError\<close> and its subclasses.
  \<open>isinstance\<close> is the test an \<open>except C\<close> clause makes.
\<close>

datatype py_class = Exception | OpenAIErrorClass | FileNotFoundError | IndexError
  | ValueError | OtherError

record py_exc =
  cls :: py_class
  detail :: pystr

definition isinstance :: "py_exc \<Rightarrow> py_class \<Rightarrow> bool" where
  "isinstance e c = (c = Exception \<or> cls e = c)"

section \<open>The table and the pandas operations the script calls\<close>

text \<open>
  A DataFrame as the script uses it: the column names and the rows, each cell as the text
  pandas writes for it. The row labels are left out: the script never reads them and
  writes the table with \<open>index=False\<close>.
\<close>

record table =
  columns :: "pystr list"
  rows :: "pystr list list"

text \<open>
  Modelled from the spec: \<open>DataFrame.head\<close> is pandas code, absent from the repository.
  \<open>df.head()\<close> is the first N rows of the table, with N = 5 when no argument is given.
\<close>

definition head_df :: "table \<Rightarrow> table" where
  "head_df df = df\<lparr>rows := take 5 (rows df)\<rparr>"

text \<open>
  Modelled from the spec: \<open>DataFrame.sample\<close> is pandas code, absent from the repository.
  It selects \<open>n\<close> rows at random without replacement and keeps each selected row as it
  is. The random state is explicit: \<open>rng k\<close> is the \<open>k\<close>-th number the generator yields
  (each is reduced modulo the size of the pool).
  \<open>choice\<close> draws one row of the pool at a time and removes it from the pool. Asking for
  more rows than the table has raises \<open>ValueError\<close>.
\<close>

fun choice :: "(nat \<Rightarrow> nat) \<Rightarrow> nat \<Rightarrow> 'a list \<Rightarrow> nat \<Rightarrow> 'a list" where
  "choice rng k pool 0 = []"
| "choice rng k pool (Suc n) =
     (if pool = [] then []
      else (let i = rng k mod length pool
            in pool ! i # choice rng (Suc k) (take i pool @ drop (Suc i) pool) n))"

definition df_sample :: "(nat \<Rightarrow> nat) \<Rightarrow> nat \<Rightarrow> table \<Rightarrow> py_exc + table" where
  "df_sample rng n df =
     (if length (rows df) < n
      then Inl \<lparr>cls = ValueError,
                detail = lit ''Cannot take a larger sample than population when '' @ [39] @
                  lit ''replace=False'' @ [39]\<rparr>
      else Inr (df\<lparr>rows := choice rng 0 (rows df) n\<rparr>))"

text \<open>
  Modelled from the spec: \<open>DataFrame.to_csv\<close> is pandas code, absent from the repository.
  The header line is the column names joined by the delimiter, then one line per data
  row; a field that contains the delimiter, a newline or the quote character is put in
  quotes, with every quote character in it doubled. The delimiter is the comma, the quote
  character the double quote and every line ends with a newline. The script writes the
  text to a byte buffer and decodes the buffer again, which gives the text back.
\<close>

definition delimiter :: nat where
  "delimiter = 44"

definition quotechar :: nat where
  "quotechar = 34"

definition newline :: nat where
  "newline = 10"

definition needs_quote :: "pystr \<Rightarrow> bool" where
  "needs_quote f = list_ex (\<lambda>c. c = delimiter \<or> c = quotechar \<or> c = newline) f"

definition double_quotes :: "pystr \<Rightarrow> pystr" where
  "double_quotes f = concat (map (\<lambda>c. if c = quotechar then [quotechar, quotechar] else [c]) f)"

definition escape_field :: "pystr \<Rightarrow> pystr" where
  "escape_field f =
     (if needs_quote f then [quotechar] @ double_quotes f @ [quotechar] else f)"

fun join_fields :: "pystr list \<Rightarrow> pystr" where
  "join_fields [] = []"
| "join_fields [f] = f"
| "join_fields (f # g # fs) = f @ [delimiter] @ join_fields (g # fs)"

definition csv_line :: "pystr list \<Rightarrow> pystr" where
  "csv_line fs = join_fields (map escape_field fs) @ [newline]"

definition to_csv :: "table \<Rightarrow> pystr" where
  "to_csv df = csv_line (columns df) @ concat (map csv_line (rows df))"

text \<open>
  Modelled from the spec: the repository has no reader of delimited text; this is the
  reader the round trip of the serialized sample is stated with. It reads the text one
  character at a time: outside quotes the delimiter ends a field and the newline ends a
  record; inside quotes every character belongs to the field, except that a quote
  character either closes the field or, when doubled, stands for one quote character.
  The state is the mode, the field read so far, the fields of the record read so far and
  the records read so far.
\<close>

datatype mode = FieldStart | Unquoted | Quoted | QuoteSeen

type_synonym parser = "mode \<times> pystr \<times> pystr list \<times> pystr list list"

definition end_field :: "pystr \<Rightarrow> pystr list \<Rightarrow> pystr list list \<Rightarrow> parser" where
  "end_field cur row out = (FieldStart, [], row @ [cur], out)"

definition end_record :: "pystr \<Rightarrow> pystr list \<Rightarrow> pystr list list \<Rightarrow> parser" where
  "end_record cur row out = (FieldStart, [], [], out @ [row @ [cur]])"

fun step :: "parser \<Rightarrow> nat \<Rightarrow> parser" where
  "step (FieldStart, cur, row, out) c =
     (if c = quotechar then (Quoted, cur, row, out)
      else if c = delimiter then end_field cur row out
      else if c = newline then end_record cur row out
      else (Unquoted, cur @ [c], row, out))"
| "step (Unquoted, cur, row, out) c =
     (if c = delimiter then end_field cur row out
      else if c = newline then end_record cur row out
      else (Unquoted, cur @ [c], row, out))"
| "step (Quoted, cur, row, out) c =
     (if c = quotechar then (QuoteSeen, cur, row, out)
      else (Quoted, cur @ [c], row, out))"
| "step (QuoteSeen, cur, row, out) c =
     (if c = quotechar then (Quoted, cur @ [c], row, out)
      else if c = delimiter then end_field cur row out
      else if c = newline then end_record cur row out
      else (Unquoted, cur @ [c], row, out))"

definition parse_csv :: "pystr \<Rightarrow> pystr list list" where
  "parse_csv s =
     (case foldl step (FieldStart, [], [], []) s of
        (m, cur, row, out) \<Rightarrow>
          if m = FieldStart \<and> cur = [] \<and> row = [] then out else out @ [row @ [cur]])"

text \<open>
  The invariant of a table: there is at least one column, and every row has one cell per
  column.
\<close>

definition wf_table :: "table \<Rightarrow> bool" where
  "wf_table df =
     (columns df \<noteq> [] \<and> list_all (\<lambda>r. length r = length (columns df)) (rows df))"

text \<open>
  \<open>occurs_in_order ps s\<close>: the strings \<open>ps\<close> occur in \<open>s\<close> as substrings, one after the
  other in the order of the list, without overlap.
\<close>

fun occurs_in_order :: "'a list list \<Rightarrow> 'a list \<Rightarrow> bool" where
  "occurs_in_order [] s = True"
| "occurs_in_order (p # ps) [] = (p = [] \<and> occurs_in_order ps [])"
| "occurs_in_order (p # ps) (x # xs) =
     ((prefix p (x # xs) \<and> occurs_in_order ps (drop (length p) (x # xs))) \<or>
      occurs_in_order (p # ps) xs)"

section \<open>The script\<close>

text \<open>
  What the script reads from outside: whether \<open>openai.error\<close> can be imported, the file
  system (\<open>open(path).read()\<close>), the upload widget and \<open>pd.read_excel\<close> on the uploaded
  bytes, the text area, the button, the random state of pandas and the remote service
  behind \<open>openai.ChatCompletion.create\<close>.
\<close>

record message =
  role :: pystr
  content :: pystr

record request =
  api_key :: pystr
  model :: pystr
  messages :: "message list"
  max_tokens :: nat
  temperature :: rat

record choice_item =
  message :: message

record response =
  choices :: "choice_item list"

record world =
  import_ok :: bool
  read_file :: "pystr \<Rightarrow> py_exc + pystr"
  uploaded_file :: "nat list option"
  read_excel :: "nat list \<Rightarrow> py_exc + table"
  questions_input :: pystr
  button_pressed :: bool
  random_state :: "nat \<Rightarrow> nat"
  chat_completion_create :: "request \<Rightarrow> py_exc + response"

text \<open>
  What the script does to the outside: the messages given to \<open>logger.error\<close>, the calls
  of the presentation toolkit in their order, and the requests sent to the remote service.
\<close>

datatype ui_event =
    St_error pystr
  | St_set_page_config pystr pystr
  | St_title pystr
  | St_file_uploader pystr
  | St_success pystr
  | St_dataframe table
  | St_header pystr
  | St_write pystr
  | St_text_area pystr pystr
  | St_button pystr
  | St_spinner pystr
  | St_warning pystr
  | St_info pystr
  | St_markdown pystr

record effects =
  logged :: "pystr list"
  shown :: "ui_event list"
  sent :: "request list"

definition no_effects :: effects where
  "no_effects = \<lparr>logged = [], shown = [], sent = []\<rparr>"

definition emit :: "ui_event \<Rightarrow> effects \<Rightarrow> effects" where
  "emit ev fx = fx\<lparr>shown := shown fx @ [ev]\<rparr>"

definition log_error :: "pystr \<Rightarrow> effects \<Rightarrow> effects" where
  "log_error msg fx = fx\<lparr>logged := logged fx @ [msg]\<rparr>"

text \<open>
  Lines 15 to 18: the name \<open>OpenAIError\<close> is bound to the error class of the client
  library, or to \<open>Exception\<close> when the import fails.
\<close>

definition OpenAIError :: "world \<Rightarrow> py_class" where
  "OpenAIError w = (if import_ok w then OpenAIErrorClass else Exception)"

text \<open>
  \<open>load_api_key\<close>, lines 21 to 31. Both handlers show an error and call \<open>st.stop()\<close>,
  which ends the run of the script: the result \<open>Inl\<close> is that halt, with the handler
  that made it and the effects so far.
\<close>

datatype fatal = MissingCredential | CredentialReadError

definition key_not_found_message :: "pystr \<Rightarrow> pystr" where
  "key_not_found_message file_path =
     lit ''API key file '' @ [39] @ file_path @ [39] @
     lit '' not found. Please ensure it exists.''"

definition key_read_error_message :: "py_exc \<Rightarrow> pystr" where
  "key_read_error_message e =
     lit ''An error occurred while reading the API key file: '' @ detail e"

definition load_api_key :: "world \<Rightarrow> pystr \<Rightarrow> effects \<Rightarrow> (fatal \<times> effects) + pystr" where
  "load_api_key w file_path fx =
     (case read_file w file_path of
        Inr contents \<Rightarrow> Inr (strip contents)
      | Inl e \<Rightarrow>
          if isinstance e FileNotFoundError
          then Inl (MissingCredential, emit (St_error (key_not_found_message file_path)) fx)
          else Inl (CredentialReadError, emit (St_error (key_read_error_message e)) fx))"

text \<open>Lines 83 to 87: the table is sampled when it has more than 500 rows.\<close>

definition sample_warning :: pystr where
  "sample_warning =
     [9888, 65039] @ lit '' Data is large! using a sample of 500 rows for analysis.''"

definition sample_stage :: "world \<Rightarrow> table \<Rightarrow> effects \<Rightarrow> (py_exc + table) \<times> effects" where
  "sample_stage w df fx =
     (if 500 < length (rows df)
      then (case df_sample (random_state w) 500 df of
              Inl e \<Rightarrow> (Inl e, fx)
            | Inr df_sampled \<Rightarrow> (Inr df_sampled, emit (St_warning sample_warning) fx))
      else (Inr df, fx))"

text \<open>Lines 95 to 100: the prompt.\<close>

definition build_prompt :: "pystr \<Rightarrow> pystr \<Rightarrow> pystr" where
  "build_prompt csv_string questions =
     (lit ''You are an analytical assistant. Based on the following data and questions, provide comprehensive findings.'' @ [10, 10]) @
     (lit ''Data:'' @ [10] @ csv_string @ [10, 10]) @
     (lit ''Questions:'' @ [10] @ questions @ [10, 10]) @
     lit ''Findings:''"

text \<open>
  Lines 103 to 111: the request. \<open>api_key\<close> is the module-wide key that line 37 sets
  and the client library sends with the call.
\<close>

definition chat_request :: "pystr \<Rightarrow> pystr \<Rightarrow> request" where
  "chat_request key prompt =
     \<lparr>api_key = key,
      model = lit ''gpt-4'',
      messages =
        [\<lparr>role = lit ''system'', content = lit ''You are a helpful assistant.''\<rparr>,
         \<lparr>role = lit ''user'', content = prompt\<rparr>],
      max_tokens = 2000,
      temperature = 6 / 10\<rparr>"

text \<open>
  Lines 83 to 117, the body of the inner \<open>try\<close>: the exception that leaves it, if any,
  and the effects up to that point. \<open>response['choices'][0]\<close> raises \<open>IndexError\<close> on
  an empty list.
\<close>

definition findings_header :: pystr where
  "findings_header = [128269] @ lit '' Findings''"

definition index_error :: py_exc where
  "index_error = \<lparr>cls = IndexError, detail = lit ''list index out of range''\<rparr>"

definition analysis_body ::
  "world \<Rightarrow> pystr \<Rightarrow> table \<Rightarrow> pystr \<Rightarrow> effects \<Rightarrow> py_exc option \<times> effects" where
  "analysis_body w key df questions fx =
     (case sample_stage w df fx of
        (Inl e, fx1) \<Rightarrow> (Some e, fx1)
      | (Inr df_sampled, fx1) \<Rightarrow>
          (let csv_string = to_csv df_sampled;
               prompt = build_prompt csv_string questions;
               fx2 = fx1\<lparr>sent := sent fx1 @ [chat_request key prompt]\<rparr>
           in case chat_completion_create w (chat_request key prompt) of
                Inl e \<Rightarrow> (Some e, fx2)
              | Inr response \<Rightarrow>
                  (case choices response of
                     [] \<Rightarrow> (Some index_error, fx2)
                   | c # _ \<Rightarrow>
                       (let findings = strip (content (message c))
                        in (None, emit (St_write findings) (emit (St_header findings_header) fx2))))))"

text \<open>
  Lines 119 to 124, the two handlers of the inner \<open>try\<close>. The first catches the instances
  of the class bound to \<open>OpenAIError\<close>, the second every other exception.
\<close>

datatype failure = ServiceError | UnexpectedError

definition classify :: "world \<Rightarrow> py_exc \<Rightarrow> failure" where
  "classify w e = (if isinstance e (OpenAIError w) then ServiceError else UnexpectedError)"

fun report :: "failure \<Rightarrow> py_exc \<Rightarrow> effects \<Rightarrow> effects" where
  "report ServiceError e fx =
     emit (St_error ([10060] @ lit '' OpenAI API returned an error: '' @ detail e))
       (log_error (lit ''OpenAI API error: '' @ detail e) fx)"
| "report UnexpectedError e fx =
     emit (St_error ([10060] @ lit '' An unexpected error occurred: '' @ detail e))
       (log_error (lit ''Unexpected error: '' @ detail e) fx)"

text \<open>Lines 79 to 124: what pressing the button does.\<close>

definition processing_spinner :: ui_event where
  "processing_spinner = St_spinner ([128269] @ lit '' Processing...'')"

definition analyze :: "world \<Rightarrow> pystr \<Rightarrow> table \<Rightarrow> pystr \<Rightarrow> effects \<Rightarrow> effects" where
  "analyze w key df questions fx =
     (case analysis_body w key df questions (emit processing_spinner fx) of
        (None, fx1) \<Rightarrow> fx1
      | (Some e, fx1) \<Rightarrow> report (classify w e) e fx1)"

text \<open>Lines 63 to 130: the upload, the preview, the questions and the button.\<close>

definition default_questions :: pystr where
  "default_questions =
     lit ''1. Provide a summary of the data.'' @ [10] @
     lit ''2. Identify any trends or patterns.'' @ [10] @
     lit ''3. Highlight any anomalies.''"

definition preview :: "table \<Rightarrow> ui_event list" where
  "preview df =
     [St_success ([9989] @ lit '' Excel file successfully uploaded and read!''),
      St_dataframe (head_df df),
      St_header ([128221] @ lit '' Define Your Questions''),
      St_write (lit ''Enter the questions you want ChatGPT to analyze based on the Excel data.''),
      St_text_area (lit ''Questions'') default_questions,
      St_button (lit ''Analyze with ChatGPT'')]"

definition upload_stage :: "world \<Rightarrow> pystr \<Rightarrow> effects \<Rightarrow> effects" where
  "upload_stage w key fx =
     (case uploaded_file w of
        None \<Rightarrow> emit (St_info ([128194] @ lit '' Awaiting Excel file upload.'')) fx
      | Some f \<Rightarrow>
          (case read_excel w f of
             Inl e \<Rightarrow>
               emit (St_error ([10060] @ lit '' Error reading the Excel file: '' @ detail e))
                 (log_error (lit ''Error reading the Excel file: '' @ detail e) fx)
           | Inr df \<Rightarrow>
               (let fx1 = fx\<lparr>shown := shown fx @ preview df\<rparr>;
                    questions = questions_input w
                in if button_pressed w then analyze w key df questions fx1 else fx1)))"

text \<open>The whole script, lines 34 to 141.\<close>

definition footer_html :: pystr where
  "footer_html =
     [10] @ lit ''    <div style='' @ [34] @ lit ''text-align: center;'' @ [34] @ lit ''>'' @ [10] @
     lit ''        <p>'' @ [169] @ lit '' 2024 Excel Analyzer App. Powered by <a href='' @ [34] @
     lit ''https://openai.com/'' @ [34] @ lit '' target='' @ [34] @ lit ''_blank'' @ [34] @
     lit ''>OpenAI</a> and <a href='' @ [34] @ lit ''https://streamlit.io/'' @ [34] @
     lit '' target='' @ [34] @ lit ''_blank'' @ [34] @ lit ''>Streamlit</a>.</p>'' @ [10] @
     lit ''    </div>'' @ [10] @ lit ''    ''"

definition page_top :: "ui_event list" where
  "page_top =
     [St_set_page_config (lit ''Excel Analyzer with ChatGPT'') (lit ''wide''),
      St_title ([128202] @ lit '' Excel Analyzer with ChatGPT''),
      St_file_uploader (lit ''Upload your Excel file'')]"

definition footer :: "effects \<Rightarrow> effects" where
  "footer fx = emit (St_markdown footer_html) (emit (St_markdown (lit ''---'')) fx)"

definition script :: "world \<Rightarrow> (fatal \<times> effects) + effects" where
  "script w =
     (case load_api_key w (lit ''api_key.txt'') no_effects of
        Inl halted \<Rightarrow> Inl halted
      | Inr openai_api_key \<Rightarrow>
          Inr (footer (upload_stage w openai_api_key (no_effects\<lparr>shown := page_top\<rparr>))))"

section \<open>A concrete run\<close>

text \<open>
  A small table whose cells hold the delimiter, quote characters and a newline, a table of
  501 rows, and a world in which every stage succeeds.
\<close>

definition example_table :: table where
  "example_table =
     \<lparr>columns = [lit ''name'', lit ''note''],
      rows = [[lit ''a,b'', [34, 104, 105, 34]], [[120, 10, 121], []]]\<rparr>"

definition large_table :: table where
  "large_table = \<lparr>columns = [lit ''n''], rows = replicate 501 [lit ''7'']\<rparr>"

definition example_world :: world where
  "example_world =
     \<lparr>import_ok = True,
      read_file = (\<lambda>p. Inr ([32] @ lit ''sk-test'' @ [10])),
      uploaded_file = Some [80, 75],
      read_excel = (\<lambda>b. Inr example_table),
      questions_input = lit ''Summarize.'',
      button_pressed = True,
      random_state = (\<lambda>k. 7 * k + 3),
      chat_completion_create =
        (\<lambda>r. Inr \<lparr>choices = [\<lparr>message = \<lparr>role = lit ''assistant'',
                                                content = [32] @ lit ''Summary text.'' @ [10]\<rparr>\<rparr>]\<rparr>)\<rparr>"

text \<open>
  Variants of that world: the service refuses the credential; the service answers with no
  choice; the same with the error class of the client library missing; the key file is
  missing; the key file holds white space only.
\<close>

definition refused_world :: world where
  "refused_world =
     example_world\<lparr>chat_completion_create :=
       (\<lambda>r. Inl \<lparr>cls = OpenAIErrorClass, detail = lit ''Incorrect API key provided''\<rparr>)\<rparr>"

definition no_choice_world :: world where
  "no_choice_world =
     example_world\<lparr>chat_completion_create := (\<lambda>r. Inr \<lparr>choices = []\<rparr>)\<rparr>"

definition fallback_world :: world where
  "fallback_world = no_choice_world\<lparr>import_ok := False\<rparr>"

definition no_key_world :: world where
  "no_key_world =
     example_world\<lparr>read_file :=
       (\<lambda>p. Inl \<lparr>cls = FileNotFoundError, detail = lit ''No such file or directory''\<rparr>)\<rparr>"

definition blank_key_world :: world where
  "blank_key_world = example_world\<lparr>read_file := (\<lambda>p. Inr [32, 9, 10])\<rparr>"

section \<open>The sampler\<close>

lemma choice_length: "n \<le> length pool \<Longrightarrow> length (choice rng k pool n) = n"
proof (induction n arbitrary: k pool)
  case 0
  show ?case by simp
next
  case (Suc n)
  then have ne: "pool \<noteq> []" by auto
  define i where "i = rng k mod length pool"
  have i: "i < length pool" using ne by (simp add: i_def)
  have "n \<le> length (take i pool @ drop (Suc i) pool)" using Suc.prems i by simp
  then have "length (choice rng (Suc k) (take i pool @ drop (Suc i) pool) n) = n"
    by (rule Suc.IH)
  then show ?case using ne by (simp add: Let_def i_def)
qed

lemma mset_remove_nth:
  "i < length xs \<Longrightarrow> add_mset (xs ! i) (mset (take i xs @ drop (Suc i) xs)) = mset xs"
proof -
  assume "i < length xs"
  then have "xs = take i xs @ xs ! i # drop (Suc i) xs" by (rule id_take_nth_drop)
  then have "mset xs = mset (take i xs @ xs ! i # drop (Suc i) xs)" by simp
  then show ?thesis by simp
qed

lemma choice_mset: "mset (choice rng k pool n) \<subseteq># mset pool"
proof (induction n arbitrary: k pool)
  case 0
  show ?case by simp
next
  case (Suc n)
  show ?case
  proof (cases "pool = []")
    case True
    then show ?thesis by simp
  next
    case False
    define i where "i = rng k mod length pool"
    have i: "i < length pool" using False by (simp add: i_def)
    have "mset (choice rng (Suc k) (take i pool @ drop (Suc i) pool) n)
            \<subseteq># mset (take i pool @ drop (Suc i) pool)"
      by (rule Suc.IH)
    then have "add_mset (pool ! i) (mset (choice rng (Suc k) (take i pool @ drop (Suc i) pool) n))
            \<subseteq># add_mset (pool ! i) (mset (take i pool @ drop (Suc i) pool))"
      by simp
    also have "\<dots> = mset pool"
      by (rule mset_remove_nth [OF i])
    finally have drawn:
      "mset (pool ! i # choice rng (Suc k) (take i pool @ drop (Suc i) pool) n) \<subseteq># mset pool"
      by simp
    have "choice rng k pool (Suc n) =
            pool ! i # choice rng (Suc k) (take i pool @ drop (Suc i) pool) n"
      using False by (simp add: Let_def i_def)
    then show ?thesis using drawn by simp
  qed
qed

lemma choice_example:
  "choice (\<lambda>k. 7 * k + 3) 0 [10, 11, 12, 13, 14, 15 :: nat] 4 = [13, 10, 12, 11]"
  by code_simp

lemma df_sample_ok:
  assumes "n \<le> length (rows df)"
  shows "\<exists>s. df_sample gen n df = Inr s \<and> columns s = columns df \<and> length (rows s) = n \<and>
           mset (rows s) \<subseteq># mset (rows df)"
  using assms by (simp add: df_sample_def choice_length choice_mset)

text \<open>
  Claim C1. A table of at most 500 rows passes the sampling stage unchanged and no
  advisory is shown. A table of more than 500 rows is replaced by a table of exactly 500
  rows with the same columns, every row of which is a row of the source table, drawn
  without replacement (as multisets the sample is contained in the source), and the
  advisory is shown.
\<close>

theorem sample_stage_spec:
  "(length (rows df) \<le> 500 \<longrightarrow> sample_stage w df fx = (Inr df, fx)) \<and>
   (500 < length (rows df) \<longrightarrow>
      (\<exists>s. sample_stage w df fx = (Inr s, emit (St_warning sample_warning) fx) \<and>
           columns s = columns df \<and> length (rows s) = 500 \<and>
           mset (rows s) \<subseteq># mset (rows df) \<and> set (rows s) \<subseteq> set (rows df)))"
proof (intro conjI impI)
  assume "length (rows df) \<le> 500"
  then show "sample_stage w df fx = (Inr df, fx)"
    by (simp add: sample_stage_def)
next
  assume big: "500 < length (rows df)"
  then have "500 \<le> length (rows df)" by simp
  from df_sample_ok [OF this, of "random_state w"]
  obtain s where s: "df_sample (random_state w) 500 df = Inr s" "columns s = columns df"
      "length (rows s) = 500" "mset (rows s) \<subseteq># mset (rows df)"
    by blast
  have "set (rows s) \<subseteq> set (rows df)"
    using set_mset_mono [OF s(4)] by simp
  moreover have "sample_stage w df fx = (Inr s, emit (St_warning sample_warning) fx)"
    using big s(1) by (simp add: sample_stage_def)
  ultimately show "\<exists>s. sample_stage w df fx = (Inr s, emit (St_warning sample_warning) fx) \<and>
           columns s = columns df \<and> length (rows s) = 500 \<and>
           mset (rows s) \<subseteq># mset (rows df) \<and> set (rows s) \<subseteq> set (rows df)"
    using s by blast
qed

theorem sample_stage_spec_witness:
  "sample_stage example_world example_table no_effects = (Inr example_table, no_effects) \<and>
   (\<exists>s. sample_stage example_world large_table no_effects =
           (Inr s, emit (St_warning sample_warning) no_effects) \<and>
        columns s = columns large_table \<and> length (rows s) = 500 \<and>
        mset (rows s) \<subseteq># mset (rows large_table) \<and> set (rows s) \<subseteq> set (rows large_table))"
proof -
  have small: "length (rows example_table) \<le> 500" by (simp add: example_table_def)
  have large: "500 < length (rows large_table)" by (simp add: large_table_def)
  show ?thesis
    using sample_stage_spec [of example_table example_world no_effects]
      sample_stage_spec [of large_table example_world no_effects] small large
    by blast
qed

section \<open>The reader of delimited text\<close>

lemma run_unquoted:
  "\<not> needs_quote f \<Longrightarrow> foldl step (Unquoted, cur, row, out) f = (Unquoted, cur @ f, row, out)"
  by (induction f arbitrary: cur) (simp_all add: needs_quote_def)

lemma run_plain:
  assumes "\<not> needs_quote f" and "f \<noteq> []"
  shows "foldl step (FieldStart, [], row, out) f = (Unquoted, f, row, out)"
proof (cases f)
  case Nil
  with assms show ?thesis by simp
next
  case (Cons c f')
  with assms have "\<not> needs_quote f'" and "c \<noteq> quotechar" "c \<noteq> delimiter" "c \<noteq> newline"
    by (simp_all add: needs_quote_def)
  then show ?thesis using Cons by (simp add: run_unquoted)
qed

lemma run_quoted:
  "foldl step (Quoted, cur, row, out) (double_quotes f) = (Quoted, cur @ f, row, out)"
  by (induction f arbitrary: cur) (simp_all add: double_quotes_def)

lemma specials_distinct:
  "delimiter \<noteq> quotechar" "newline \<noteq> quotechar" "newline \<noteq> delimiter"
  by (simp_all add: delimiter_def quotechar_def newline_def)

lemma field_then_delimiter:
  "foldl step (FieldStart, [], row, out) (escape_field f @ [delimiter]) =
     (FieldStart, [], row @ [f], out)"
proof (cases "needs_quote f")
  case True
  then show ?thesis
    by (simp add: escape_field_def run_quoted specials_distinct end_field_def)
next
  case False
  then show ?thesis
    by (cases "f = []") (simp_all add: escape_field_def run_plain specials_distinct end_field_def)
qed

lemma field_then_newline:
  "foldl step (FieldStart, [], row, out) (escape_field f @ [newline]) =
     (FieldStart, [], [], out @ [row @ [f]])"
proof (cases "needs_quote f")
  case True
  then show ?thesis
    by (simp add: escape_field_def run_quoted specials_distinct end_record_def)
next
  case False
  then show ?thesis
    by (cases "f = []") (simp_all add: escape_field_def run_plain specials_distinct end_record_def)
qed

lemma run_line:
  "fs \<noteq> [] \<Longrightarrow>
   foldl step (FieldStart, [], row, out) (csv_line fs) = (FieldStart, [], [], out @ [row @ fs])"
proof (induction fs arbitrary: row rule: join_fields.induct)
  case 1
  then show ?case by simp
next
  case (2 f)
  show ?case using field_then_newline [of row out f] by (simp add: csv_line_def)
next
  case (3 f g fs)
  have "foldl step (FieldStart, [], row, out) (csv_line (f # g # fs)) =
        foldl step (foldl step (FieldStart, [], row, out) (escape_field f @ [delimiter]))
          (csv_line (g # fs))"
    by (simp add: csv_line_def)
  also have "\<dots> = foldl step (FieldStart, [], row @ [f], out) (csv_line (g # fs))"
    by (simp only: field_then_delimiter)
  also have "\<dots> = (FieldStart, [], [], out @ [(row @ [f]) @ g # fs])"
    by (rule "3.IH") simp
  finally show ?case by simp
qed

lemma run_lines:
  "list_all (\<lambda>r. r \<noteq> []) rs \<Longrightarrow>
   foldl step (FieldStart, [], [], out) (concat (map csv_line rs)) =
     (FieldStart, [], [], out @ rs)"
proof (induction rs arbitrary: out)
  case Nil
  show ?case by simp
next
  case (Cons r rs)
  then show ?case by (simp add: run_line)
qed

text \<open>
  Claim C7. For a table with at least one column, whatever its cells hold (delimiters,
  quote characters and newlines included), reading the serialized table back gives the
  header and the rows with the same cell values.
\<close>

theorem csv_round_trip:
  assumes "wf_table df"
  shows "parse_csv (to_csv df) = columns df # rows df"
proof -
  from assms have c: "columns df \<noteq> []" and r: "list_all (\<lambda>r. r \<noteq> []) (rows df)"
    by (auto simp: wf_table_def list_all_iff)
  have "foldl step (FieldStart, [], [], []) (to_csv df) =
          (FieldStart, [], [], columns df # rows df)"
    using run_line [OF c, of "[]" "[]"] run_lines [OF r, of "[columns df]"]
    by (simp add: to_csv_def)
  then show ?thesis by (simp add: parse_csv_def)
qed

theorem csv_round_trip_witness:
  "wf_table example_table \<and>
   to_csv example_table =
     lit ''name,note'' @ [10] @
     [34] @ lit ''a,b'' @ [34, 44, 34, 34, 34] @ lit ''hi'' @ [34, 34, 34, 10] @
     [34, 120, 10, 121, 34, 44, 10] \<and>
   parse_csv (to_csv example_table) =
     [[lit ''name'', lit ''note''], [lit ''a,b'', [34, 104, 105, 34]], [[120, 10, 121], []]]"
proof -
  have wf: "wf_table example_table"
    by (simp add: wf_table_def example_table_def)
  have ser: "to_csv example_table =
     lit ''name,note'' @ [10] @
     [34] @ lit ''a,b'' @ [34, 44, 34, 34, 34] @ lit ''hi'' @ [34, 34, 34, 10] @
     [34, 120, 10, 121, 34, 44, 10]"
    by (simp add: to_csv_def csv_line_def escape_field_def needs_quote_def double_quotes_def
        example_table_def lit_def delimiter_def quotechar_def newline_def)
  show ?thesis
    using csv_round_trip [OF wf] wf ser by (simp add: example_table_def)
qed

section \<open>The prompt\<close>

lemma occurs_here:
  assumes "occurs_in_order ps b"
  shows "occurs_in_order (p # ps) (p @ b)"
proof (cases "p @ b")
  case Nil
  with assms show ?thesis by simp
next
  case (Cons x xs)
  have "prefix p (p @ b)" and "drop (length p) (p @ b) = b" by simp_all
  then have "prefix p (x # xs)" and "occurs_in_order ps (drop (length p) (x # xs))"
    using assms by (simp_all only: Cons)
  then show ?thesis by (simp add: Cons)
qed

lemma occurs_skip: "occurs_in_order ps b \<Longrightarrow> occurs_in_order ps (a @ b)"
proof (induction a)
  case Nil
  then show ?case by simp
next
  case (Cons x a)
  then show ?case by (cases ps) simp_all
qed

lemma occurs_concat:
  "occurs_in_order qs s \<Longrightarrow> occurs_in_order (ps @ qs) (concat ps @ s)"
  by (induction ps) (simp_all add: occurs_here)

text \<open>
  Claim C2. The prompt is the instruction preamble, the label "Data:" followed by the
  serialized sample (the header line, then one line per data row), the label "Questions:"
  followed by the questions as they are, and the trailer "Findings:"; these parts occur
  in the prompt as substrings in this order.
\<close>

theorem build_prompt_spec:
  "build_prompt (to_csv df) questions =
     lit ''You are an analytical assistant. Based on the following data and questions, provide comprehensive findings.'' @ [10, 10] @
     lit ''Data:'' @ [10] @ csv_line (columns df) @ concat (map csv_line (rows df)) @ [10, 10] @
     lit ''Questions:'' @ [10] @ questions @ [10, 10] @
     lit ''Findings:'' \<and>
   occurs_in_order
     ([lit ''You are an analytical assistant. Based on the following data and questions, provide comprehensive findings.'',
       lit ''Data:'', csv_line (columns df)] @ map csv_line (rows df) @
      [lit ''Questions:'', questions, lit ''Findings:''])
     (build_prompt (to_csv df) questions)"
proof
  let ?P = "lit ''You are an analytical assistant. Based on the following data and questions, provide comprehensive findings.''"
  let ?D = "lit ''Data:''" and ?Q = "lit ''Questions:''" and ?F = "lit ''Findings:''"
  let ?H = "csv_line (columns df)" and ?R = "map csv_line (rows df)"
  show eq: "build_prompt (to_csv df) questions =
     ?P @ [10, 10] @ ?D @ [10] @ ?H @ concat ?R @ [10, 10] @
     ?Q @ [10] @ questions @ [10, 10] @ ?F"
    by (simp add: build_prompt_def to_csv_def)
  have "occurs_in_order [?F] (?F @ [])"
    by (rule occurs_here) simp
  then have "occurs_in_order [?F] ([10, 10] @ ?F)"
    using occurs_skip [of "[?F]" ?F "[10, 10]"] by simp
  then have "occurs_in_order [questions, ?F] (questions @ [10, 10] @ ?F)"
    by (rule occurs_here)
  then have "occurs_in_order [questions, ?F] ([10] @ questions @ [10, 10] @ ?F)"
    by (rule occurs_skip)
  then have "occurs_in_order [?Q, questions, ?F] (?Q @ [10] @ questions @ [10, 10] @ ?F)"
    by (rule occurs_here)
  then have "occurs_in_order [?Q, questions, ?F]
               ([10, 10] @ ?Q @ [10] @ questions @ [10, 10] @ ?F)"
    by (rule occurs_skip)
  then have "occurs_in_order (?R @ [?Q, questions, ?F])
               (concat ?R @ [10, 10] @ ?Q @ [10] @ questions @ [10, 10] @ ?F)"
    by (rule occurs_concat)
  then have "occurs_in_order (?H # ?R @ [?Q, questions, ?F])
               (?H @ concat ?R @ [10, 10] @ ?Q @ [10] @ questions @ [10, 10] @ ?F)"
    by (rule occurs_here)
  then have "occurs_in_order (?H # ?R @ [?Q, questions, ?F])
               ([10] @ ?H @ concat ?R @ [10, 10] @ ?Q @ [10] @ questions @ [10, 10] @ ?F)"
    by (rule occurs_skip)
  then have "occurs_in_order (?D # ?H # ?R @ [?Q, questions, ?F])
               (?D @ [10] @ ?H @ concat ?R @ [10, 10] @ ?Q @ [10] @ questions @ [10, 10] @ ?F)"
    by (rule occurs_here)
  then have "occurs_in_order (?D # ?H # ?R @ [?Q, questions, ?F])
               ([10, 10] @ ?D @ [10] @ ?H @ concat ?R @ [10, 10] @
                ?Q @ [10] @ questions @ [10, 10] @ ?F)"
    by (rule occurs_skip)
  then have "occurs_in_order (?P # ?D # ?H # ?R @ [?Q, questions, ?F])
               (?P @ [10, 10] @ ?D @ [10] @ ?H @ concat ?R @ [10, 10] @
                ?Q @ [10] @ questions @ [10, 10] @ ?F)"
    by (rule occurs_here)
  then show "occurs_in_order ([?P, ?D, ?H] @ ?R @ [?Q, questions, ?F])
     (build_prompt (to_csv df) questions)"
    by (simp only: eq append_Cons append_Nil)
qed

theorem build_prompt_spec_witness:
  "occurs_in_order
     [lit ''You are an analytical assistant. Based on the following data and questions, provide comprehensive findings.'',
      lit ''Data:'', lit ''name,note'' @ [10],
      [34] @ lit ''a,b'' @ [34, 44, 34, 34, 34] @ lit ''hi'' @ [34, 34, 34, 10],
      [34, 120, 10, 121, 34, 44, 10],
      lit ''Questions:'', lit ''Summarize.'', lit ''Findings:'']
     (build_prompt (to_csv example_table) (lit ''Summarize.'')) \<and>
   build_prompt (to_csv example_table) (lit ''Summarize.'') =
     lit ''You are an analytical assistant. Based on the following data and questions, provide comprehensive findings.'' @ [10, 10] @
     lit ''Data:'' @ [10] @
     lit ''name,note'' @ [10] @
     [34] @ lit ''a,b'' @ [34, 44, 34, 34, 34] @ lit ''hi'' @ [34, 34, 34, 10] @
     [34, 120, 10, 121, 34, 44, 10] @ [10, 10] @
     lit ''Questions:'' @ [10] @ lit ''Summarize.'' @ [10, 10] @
     lit ''Findings:''"
proof -
  have header: "csv_line (columns example_table) = lit ''name,note'' @ [10]"
    by (simp add: csv_line_def escape_field_def needs_quote_def
        example_table_def lit_def delimiter_def quotechar_def newline_def)
  have lines: "map csv_line (rows example_table) =
     [[34] @ lit ''a,b'' @ [34, 44, 34, 34, 34] @ lit ''hi'' @ [34, 34, 34, 10],
      [34, 120, 10, 121, 34, 44, 10]]"
    by (simp add: csv_line_def escape_field_def needs_quote_def double_quotes_def
        example_table_def lit_def delimiter_def quotechar_def newline_def)
  note spec = build_prompt_spec [of example_table "lit ''Summarize.''"]
  have "occurs_in_order
     ([lit ''You are an analytical assistant. Based on the following data and questions, provide comprehensive findings.'',
       lit ''Data:'', csv_line (columns example_table)] @
      map csv_line (rows example_table) @
      [lit ''Questions:'', lit ''Summarize.'', lit ''Findings:''])
     (build_prompt (to_csv example_table) (lit ''Summarize.''))"
    using spec by (rule conjunct2)
  then have ordered: "occurs_in_order
     [lit ''You are an analytical assistant. Based on the following data and questions, provide comprehensive findings.'',
      lit ''Data:'', lit ''name,note'' @ [10],
      [34] @ lit ''a,b'' @ [34, 44, 34, 34, 34] @ lit ''hi'' @ [34, 34, 34, 10],
      [34, 120, 10, 121, 34, 44, 10],
      lit ''Questions:'', lit ''Summarize.'', lit ''Findings:'']
     (build_prompt (to_csv example_table) (lit ''Summarize.''))"
    by (simp only: header lines append_Cons append_Nil)
  have "build_prompt (to_csv example_table) (lit ''Summarize.'') =
     lit ''You are an analytical assistant. Based on the following data and questions, provide comprehensive findings.'' @ [10, 10] @
     lit ''Data:'' @ [10] @ csv_line (columns example_table) @
     concat (map csv_line (rows example_table)) @ [10, 10] @
     lit ''Questions:'' @ [10] @ lit ''Summarize.'' @ [10, 10] @
     lit ''Findings:''"
    using spec by (rule conjunct1)
  then have "build_prompt (to_csv example_table) (lit ''Summarize.'') =
     lit ''You are an analytical assistant. Based on the following data and questions, provide comprehensive findings.'' @ [10, 10] @
     lit ''Data:'' @ [10] @
     lit ''name,note'' @ [10] @
     [34] @ lit ''a,b'' @ [34, 44, 34, 34, 34] @ lit ''hi'' @ [34, 34, 34, 10] @
     [34, 120, 10, 121, 34, 44, 10] @ [10, 10] @
     lit ''Questions:'' @ [10] @ lit ''Summarize.'' @ [10, 10] @
     lit ''Findings:''"
    by (simp only: header lines concat.simps append_Nil2 append_assoc)
  with ordered show ?thesis by (rule conjI)
qed

section \<open>Trimming\<close>

lemma strip_decomposition:
  "\<exists>a b. s = a @ strip s @ b \<and> list_all is_space a \<and> list_all is_space b"
proof -
  define d where "d = dropWhile is_space s"
  have s: "s = takeWhile is_space s @ d"
    by (simp add: d_def)
  have "strip s @ rev (takeWhile is_space (rev d)) =
          rev (takeWhile is_space (rev d) @ dropWhile is_space (rev d))"
    by (simp only: strip_def d_def rev_append)
  also have "\<dots> = rev (rev d)"
    by (simp only: takeWhile_dropWhile_id)
  finally have d: "d = strip s @ rev (takeWhile is_space (rev d))"
    by simp
  have a: "list_all is_space (takeWhile is_space s)"
    by (simp add: list_all_iff) (meson set_takeWhileD)
  have b: "list_all is_space (rev (takeWhile is_space (rev d)))"
    by (simp add: list_all_iff) (meson set_takeWhileD)
  from s d have "s = takeWhile is_space s @ strip s @ rev (takeWhile is_space (rev d))"
    by simp
  with a b show ?thesis by blast
qed

lemma strip_ends:
  "strip s = [] \<or> (\<not> is_space (hd (strip s)) \<and> \<not> is_space (last (strip s)))"
proof (cases "strip s = []")
  case True
  then show ?thesis by simp
next
  case False
  define d where "d = dropWhile is_space s"
  define r where "r = dropWhile is_space (rev d)"
  have st: "strip s = rev r" by (simp add: strip_def d_def r_def)
  with False have r: "r \<noteq> []" by simp
  then have "\<not> is_space (hd r)" unfolding r_def by (rule hd_dropWhile)
  then have l: "\<not> is_space (last (strip s))" using r by (simp add: st last_rev)
  have "rev d = takeWhile is_space (rev d) @ r" by (simp add: r_def)
  then have "last (rev d) = last r" using r by (metis last_appendR)
  moreover have dne: "d \<noteq> []" using r by (auto simp: r_def)
  ultimately have "hd d = last r" by (simp add: last_rev)
  moreover have "\<not> is_space (hd d)" using dne unfolding d_def by (rule hd_dropWhile)
  ultimately have "\<not> is_space (hd (strip s))" using r by (simp add: st hd_rev)
  with l show ?thesis by simp
qed

lemma strip_all_space:
  assumes "list_all is_space s"
  shows "strip s = []"
proof -
  have none: "dropWhile is_space s = []"
    using assms by (induction s) simp_all
  show ?thesis unfolding strip_def none by simp
qed

section \<open>The stages of the analysis\<close>

lemma sample_stage_returns:
  "\<exists>s. sample_stage w df fx =
          (Inr s, if 500 < length (rows df) then emit (St_warning sample_warning) fx else fx)"
proof (cases "500 < length (rows df)")
  case True
  then have "500 \<le> length (rows df)" by simp
  from df_sample_ok [OF this, of "random_state w"]
  obtain s where "df_sample (random_state w) 500 df = Inr s" by blast
  then show ?thesis using True by (simp add: sample_stage_def)
next
  case False
  then show ?thesis by (simp add: sample_stage_def)
qed

lemma sample_stage_keeps:
  assumes "sample_stage w df fx = (r, fx1)"
  shows "sent fx1 = sent fx \<and> logged fx1 = logged fx"
  using assms sample_stage_returns [of w df fx] by (auto simp: emit_def split: if_splits)

lemma report_effects:
  "sent (report f e fx) = sent fx \<and> length (logged (report f e fx)) = Suc (length (logged fx)) \<and>
   (\<exists>msg. shown (report f e fx) = shown fx @ [St_error msg])"
  by (cases f) (simp_all add: emit_def log_error_def)

lemma analysis_body_create_fails:
  assumes "sample_stage w df fx = (Inr s, fx1)"
    and "chat_completion_create w (chat_request key (build_prompt (to_csv s) questions)) = Inl e"
  shows "analysis_body w key df questions fx =
           (Some e, fx1\<lparr>sent := sent fx1 @ [chat_request key (build_prompt (to_csv s) questions)]\<rparr>)"
  using assms by (simp add: analysis_body_def Let_def)

lemma analysis_body_no_choice:
  assumes "sample_stage w df fx = (Inr s, fx1)"
    and "chat_completion_create w (chat_request key (build_prompt (to_csv s) questions)) = Inr resp"
    and "choices resp = []"
  shows "analysis_body w key df questions fx =
           (Some index_error,
            fx1\<lparr>sent := sent fx1 @ [chat_request key (build_prompt (to_csv s) questions)]\<rparr>)"
  using assms by (simp add: analysis_body_def Let_def)

lemma analysis_body_choice:
  assumes "sample_stage w df fx = (Inr s, fx1)"
    and "chat_completion_create w (chat_request key (build_prompt (to_csv s) questions)) = Inr resp"
    and "choices resp = c # cs"
  shows "analysis_body w key df questions fx =
           (None,
            emit (St_write (strip (content (message c))))
              (emit (St_header findings_header)
                 (fx1\<lparr>sent := sent fx1 @ [chat_request key (build_prompt (to_csv s) questions)]\<rparr>)))"
  using assms by (simp add: analysis_body_def Let_def)

lemma analysis_body_sent:
  assumes "sample_stage w df fx = (Inr s, fx1)"
  shows "sent (snd (analysis_body w key df questions fx)) =
           sent fx @ [chat_request key (build_prompt (to_csv s) questions)]"
proof -
  have k: "sent fx1 = sent fx" using sample_stage_keeps [OF assms] by simp
  show ?thesis
    using assms k
    by (simp add: analysis_body_def Let_def emit_def split: sum.splits list.splits)
qed

lemma analyze_sent:
  assumes "sample_stage w df (emit processing_spinner fx) = (Inr s, fx1)"
  shows "sent (analyze w key df questions fx) =
           sent fx @ [chat_request key (build_prompt (to_csv s) questions)]"
proof -
  obtain r fx2 where b: "analysis_body w key df questions (emit processing_spinner fx) = (r, fx2)"
    by (cases "analysis_body w key df questions (emit processing_spinner fx)")
  have "sent fx2 = sent (emit processing_spinner fx) @
          [chat_request key (build_prompt (to_csv s) questions)]"
    using analysis_body_sent [OF assms, of key questions] b by simp
  then have "sent fx2 = sent fx @ [chat_request key (build_prompt (to_csv s) questions)]"
    by (simp add: emit_def)
  then show ?thesis
    using b by (cases r) (simp_all add: analyze_def report_effects)
qed

text \<open>
  Claim C6. The analysis sends one request, whose messages are the system instruction
  "You are a helpful assistant." and one user message holding the prompt; when the
  service answers with at least one choice, the findings shown are the text of the first
  choice with the white space at both ends removed.
\<close>

theorem analyze_success:
  "\<exists>s fx1.
     sample_stage w df (emit processing_spinner fx) = (Inr s, fx1) \<and>
     messages (chat_request key (build_prompt (to_csv s) questions)) =
       [\<lparr>role = lit ''system'', content = lit ''You are a helpful assistant.''\<rparr>,
        \<lparr>role = lit ''user'', content = build_prompt (to_csv s) questions\<rparr>] \<and>
     sent (analyze w key df questions fx) =
       sent fx @ [chat_request key (build_prompt (to_csv s) questions)] \<and>
     (\<forall>resp c cs.
        chat_completion_create w (chat_request key (build_prompt (to_csv s) questions)) = Inr resp \<longrightarrow>
        choices resp = c # cs \<longrightarrow>
        analyze w key df questions fx =
          emit (St_write (strip (content (message c))))
            (emit (St_header findings_header)
               (fx1\<lparr>sent := sent fx1 @ [chat_request key (build_prompt (to_csv s) questions)]\<rparr>)) \<and>
        (\<exists>a b. content (message c) = a @ strip (content (message c)) @ b \<and>
               list_all is_space a \<and> list_all is_space b) \<and>
        (strip (content (message c)) = [] \<or>
         (\<not> is_space (hd (strip (content (message c)))) \<and>
          \<not> is_space (last (strip (content (message c)))))))"
proof -
  obtain s where s: "sample_stage w df (emit processing_spinner fx) =
      (Inr s, if 500 < length (rows df)
              then emit (St_warning sample_warning) (emit processing_spinner fx)
              else emit processing_spinner fx)"
    using sample_stage_returns [of w df "emit processing_spinner fx"] by blast
  define fx1 where "fx1 = (if 500 < length (rows df)
              then emit (St_warning sample_warning) (emit processing_spinner fx)
              else emit processing_spinner fx)"
  have st: "sample_stage w df (emit processing_spinner fx) = (Inr s, fx1)"
    using s by (simp add: fx1_def)
  have m: "messages (chat_request key (build_prompt (to_csv s) questions)) =
       [\<lparr>role = lit ''system'', content = lit ''You are a helpful assistant.''\<rparr>,
        \<lparr>role = lit ''user'', content = build_prompt (to_csv s) questions\<rparr>]"
    by (simp add: chat_request_def)
  have one: "sent (analyze w key df questions fx) =
       sent fx @ [chat_request key (build_prompt (to_csv s) questions)]"
    by (rule analyze_sent [OF st])
  have ok: "analyze w key df questions fx =
          emit (St_write (strip (content (message c))))
            (emit (St_header findings_header)
               (fx1\<lparr>sent := sent fx1 @ [chat_request key (build_prompt (to_csv s) questions)]\<rparr>))"
    if "chat_completion_create w (chat_request key (build_prompt (to_csv s) questions)) = Inr resp"
      and "choices resp = c # cs" for resp c cs
    using analysis_body_choice [OF st that] by (simp add: analyze_def)
  show ?thesis
    using st m one ok strip_decomposition strip_ends by blast
qed


theorem analyze_success_witness:
  "analyze example_world (lit ''sk-test'') example_table (lit ''Summarize.'') no_effects =
     emit (St_write (lit ''Summary text.''))
       (emit (St_header findings_header)
          ((emit processing_spinner no_effects)
             \<lparr>sent := [chat_request (lit ''sk-test'')
                        (build_prompt (to_csv example_table) (lit ''Summarize.''))]\<rparr>))"
proof -
  obtain s fx1 where
    st: "sample_stage example_world example_table (emit processing_spinner no_effects) = (Inr s, fx1)"
    and ok: "\<forall>resp c cs.
        chat_completion_create example_world
          (chat_request (lit ''sk-test'') (build_prompt (to_csv s) (lit ''Summarize.''))) = Inr resp \<longrightarrow>
        choices resp = c # cs \<longrightarrow>
        analyze example_world (lit ''sk-test'') example_table (lit ''Summarize.'') no_effects =
          emit (St_write (strip (content (message c))))
            (emit (St_header findings_header)
               (fx1\<lparr>sent := sent fx1 @ [chat_request (lit ''sk-test'')
                  (build_prompt (to_csv s) (lit ''Summarize.''))]\<rparr>)) \<and>
        (\<exists>a b. content (message c) = a @ strip (content (message c)) @ b \<and>
               list_all is_space a \<and> list_all is_space b) \<and>
        (strip (content (message c)) = [] \<or>
         (\<not> is_space (hd (strip (content (message c)))) \<and>
          \<not> is_space (last (strip (content (message c))))))"
    using analyze_success [where w = example_world and df = example_table and fx = no_effects
        and key = "lit ''sk-test''" and questions = "lit ''Summarize.''"]
    by blast
  have "sample_stage example_world example_table (emit processing_spinner no_effects) =
          (Inr example_table, emit processing_spinner no_effects)"
    by (simp add: sample_stage_def example_table_def)
  with st have s: "s = example_table" and fx1: "fx1 = emit processing_spinner no_effects"
    by simp_all
  have reply: "chat_completion_create example_world
          (chat_request (lit ''sk-test'') (build_prompt (to_csv s) (lit ''Summarize.''))) =
        Inr \<lparr>choices = [\<lparr>message = \<lparr>role = lit ''assistant'',
                                         content = [32] @ lit ''Summary text.'' @ [10]\<rparr>\<rparr>]\<rparr>"
    by (simp add: example_world_def)
  have trimmed: "strip ([32] @ lit ''Summary text.'' @ [10]) = lit ''Summary text.''"
    by (simp add: strip_def is_space_def lit_def)
  have "sent (emit processing_spinner no_effects) = []"
    by (simp add: emit_def no_effects_def)
  then show ?thesis
    using ok [rule_format, OF reply] trimmed by (simp add: s fx1)
qed

text \<open>
  Claim C4. When the service answers with no choice, the body of the analysis fails (the
  empty response is the \<open>IndexError\<close> of \<open>choices[0]\<close>), no findings are shown, and the
  failure is logged and shown as an error by the handler that catches it.
\<close>

theorem analyze_no_choice:
  "\<exists>s fx1.
     sample_stage w df (emit processing_spinner fx) = (Inr s, fx1) \<and>
     (\<forall>resp.
        chat_completion_create w (chat_request key (build_prompt (to_csv s) questions)) = Inr resp \<longrightarrow>
        choices resp = [] \<longrightarrow>
        analysis_body w key df questions (emit processing_spinner fx) =
          (Some index_error,
           fx1\<lparr>sent := sent fx1 @ [chat_request key (build_prompt (to_csv s) questions)]\<rparr>) \<and>
        analyze w key df questions fx =
          report (classify w index_error) index_error
            (fx1\<lparr>sent := sent fx1 @ [chat_request key (build_prompt (to_csv s) questions)]\<rparr>) \<and>
        classify w index_error = (if import_ok w then UnexpectedError else ServiceError) \<and>
        (\<exists>msg. shown (analyze w key df questions fx) = shown fx1 @ [St_error msg]) \<and>
        length (logged (analyze w key df questions fx)) = Suc (length (logged fx)))"
proof -
  obtain s fx1 where st: "sample_stage w df (emit processing_spinner fx) = (Inr s, fx1)"
    using sample_stage_returns [of w df "emit processing_spinner fx"] by blast
  let ?req = "chat_request key (build_prompt (to_csv s) questions)"
  let ?fx2 = "fx1\<lparr>sent := sent fx1 @ [?req]\<rparr>"
  have cl: "classify w index_error = (if import_ok w then UnexpectedError else ServiceError)"
    by (simp add: classify_def isinstance_def OpenAIError_def index_error_def)
  have lg: "logged fx1 = logged fx"
    using sample_stage_keeps [OF st] by (simp add: emit_def)
  have "analysis_body w key df questions (emit processing_spinner fx) = (Some index_error, ?fx2) \<and>
        analyze w key df questions fx = report (classify w index_error) index_error ?fx2 \<and>
        classify w index_error = (if import_ok w then UnexpectedError else ServiceError) \<and>
        (\<exists>msg. shown (analyze w key df questions fx) = shown fx1 @ [St_error msg]) \<and>
        length (logged (analyze w key df questions fx)) = Suc (length (logged fx))"
    if r: "chat_completion_create w ?req = Inr resp" and e: "choices resp = []" for resp
  proof -
    have b: "analysis_body w key df questions (emit processing_spinner fx) =
               (Some index_error, ?fx2)"
      by (rule analysis_body_no_choice [OF st r e])
    then have a: "analyze w key df questions fx =
                    report (classify w index_error) index_error ?fx2"
      by (simp add: analyze_def)
    have "\<exists>msg. shown (report (classify w index_error) index_error ?fx2) =
             shown ?fx2 @ [St_error msg]"
      using report_effects [of "classify w index_error" index_error ?fx2] by blast
    then have sh: "\<exists>msg. shown (analyze w key df questions fx) = shown fx1 @ [St_error msg]"
      by (simp add: a)
    have "length (logged (report (classify w index_error) index_error ?fx2)) =
            Suc (length (logged ?fx2))"
      using report_effects [of "classify w index_error" index_error ?fx2] by blast
    then have "length (logged (analyze w key df questions fx)) = Suc (length (logged fx))"
      by (simp add: a lg)
    with b a cl sh show ?thesis by blast
  qed
  with st show ?thesis by blast
qed

theorem analyze_no_choice_witness:
  "analysis_body no_choice_world (lit ''sk-test'') example_table (lit ''Summarize.'')
     (emit processing_spinner no_effects) =
     (Some index_error,
      (emit processing_spinner no_effects)
        \<lparr>sent := [chat_request (lit ''sk-test'')
                   (build_prompt (to_csv example_table) (lit ''Summarize.''))]\<rparr>) \<and>
   shown (analyze no_choice_world (lit ''sk-test'') example_table (lit ''Summarize.'') no_effects) =
     [processing_spinner,
      St_error ([10060] @ lit '' An unexpected error occurred: list index out of range'')] \<and>
   logged (analyze no_choice_world (lit ''sk-test'') example_table (lit ''Summarize.'') no_effects) =
     [lit ''Unexpected error: list index out of range'']"
proof -
  let ?w = no_choice_world and ?k = "lit ''sk-test''" and ?q = "lit ''Summarize.''"
  obtain s fx1 where
    st: "sample_stage ?w example_table (emit processing_spinner no_effects) = (Inr s, fx1)"
    and no: "\<forall>resp.
        chat_completion_create ?w (chat_request ?k (build_prompt (to_csv s) ?q)) = Inr resp \<longrightarrow>
        choices resp = [] \<longrightarrow>
        analysis_body ?w ?k example_table ?q (emit processing_spinner no_effects) =
          (Some index_error,
           fx1\<lparr>sent := sent fx1 @ [chat_request ?k (build_prompt (to_csv s) ?q)]\<rparr>) \<and>
        analyze ?w ?k example_table ?q no_effects =
          report (classify ?w index_error) index_error
            (fx1\<lparr>sent := sent fx1 @ [chat_request ?k (build_prompt (to_csv s) ?q)]\<rparr>) \<and>
        classify ?w index_error = (if import_ok ?w then UnexpectedError else ServiceError) \<and>
        (\<exists>msg. shown (analyze ?w ?k example_table ?q no_effects) = shown fx1 @ [St_error msg]) \<and>
        length (logged (analyze ?w ?k example_table ?q no_effects)) = Suc (length (logged no_effects))"
    using analyze_no_choice [where w = ?w and df = example_table and fx = no_effects
        and key = ?k and questions = ?q]
    by blast
  have "sample_stage ?w example_table (emit processing_spinner no_effects) =
          (Inr example_table, emit processing_spinner no_effects)"
    by (simp add: sample_stage_def example_table_def)
  with st have s: "s = example_table" and fx1: "fx1 = emit processing_spinner no_effects"
    by simp_all
  have reply: "chat_completion_create ?w (chat_request ?k (build_prompt (to_csv s) ?q)) =
                 Inr \<lparr>choices = []\<rparr>"
    by (simp add: no_choice_world_def)
  have imp: "import_ok ?w"
    by (simp add: no_choice_world_def example_world_def)
  have e: "sent (emit processing_spinner no_effects) = []"
      "shown (emit processing_spinner no_effects) = [processing_spinner]"
      "logged (emit processing_spinner no_effects) = []"
    by (simp_all add: emit_def no_effects_def)
  have d: "detail index_error = lit ''list index out of range''"
    by (simp add: index_error_def)
  show ?thesis
    using no [rule_format, OF reply] imp e d
    by (simp add: s fx1 emit_def log_error_def lit_def)
qed

text \<open>
  Claim C3. A failure of the analysis is handled by the first handler (the service error
  category) when it is an instance of the class bound to \<open>OpenAIError\<close>, which is the
  error class of the client library whenever that class could be imported, and by the
  second handler (the unexpected error category) otherwise. Either handler logs one
  message that carries the detail of the failure and shows one error message. The
  request is sent once, whatever the outcome.
\<close>

theorem failure_classification:
  "classify w e = (if isinstance e (OpenAIError w) then ServiceError else UnexpectedError) \<and>
   (import_ok w \<longrightarrow> isinstance e (OpenAIError w) = (cls e = OpenAIErrorClass)) \<and>
   report ServiceError e fx =
     fx\<lparr>logged := logged fx @ [lit ''OpenAI API error: '' @ detail e],
        shown := shown fx @
          [St_error ([10060] @ lit '' OpenAI API returned an error: '' @ detail e)]\<rparr> \<and>
   report UnexpectedError e fx =
     fx\<lparr>logged := logged fx @ [lit ''Unexpected error: '' @ detail e],
        shown := shown fx @
          [St_error ([10060] @ lit '' An unexpected error occurred: '' @ detail e)]\<rparr> \<and>
   (\<exists>s fx1.
      sample_stage w df (emit processing_spinner fx) = (Inr s, fx1) \<and>
      sent (analyze w key df questions fx) =
        sent fx @ [chat_request key (build_prompt (to_csv s) questions)] \<and>
      (chat_completion_create w (chat_request key (build_prompt (to_csv s) questions)) = Inl e \<longrightarrow>
       analyze w key df questions fx =
         report (classify w e) e
           (fx1\<lparr>sent := sent fx1 @ [chat_request key (build_prompt (to_csv s) questions)]\<rparr>)))"
proof -
  have c: "classify w e = (if isinstance e (OpenAIError w) then ServiceError else UnexpectedError)"
    by (simp add: classify_def)
  have i: "import_ok w \<longrightarrow> isinstance e (OpenAIError w) = (cls e = OpenAIErrorClass)"
    by (simp add: isinstance_def OpenAIError_def)
  have r1: "report ServiceError e fx =
     fx\<lparr>logged := logged fx @ [lit ''OpenAI API error: '' @ detail e],
        shown := shown fx @
          [St_error ([10060] @ lit '' OpenAI API returned an error: '' @ detail e)]\<rparr>"
    by (simp add: emit_def log_error_def)
  have r2: "report UnexpectedError e fx =
     fx\<lparr>logged := logged fx @ [lit ''Unexpected error: '' @ detail e],
        shown := shown fx @
          [St_error ([10060] @ lit '' An unexpected error occurred: '' @ detail e)]\<rparr>"
    by (simp add: emit_def log_error_def)
  obtain s fx1 where st: "sample_stage w df (emit processing_spinner fx) = (Inr s, fx1)"
    using sample_stage_returns [of w df "emit processing_spinner fx"] by blast
  let ?req = "chat_request key (build_prompt (to_csv s) questions)"
  have one: "sent (analyze w key df questions fx) = sent fx @ [?req]"
    by (rule analyze_sent [OF st])
  have f: "chat_completion_create w ?req = Inl e \<longrightarrow>
       analyze w key df questions fx =
         report (classify w e) e (fx1\<lparr>sent := sent fx1 @ [?req]\<rparr>)"
  proof
    assume "chat_completion_create w ?req = Inl e"
    from analysis_body_create_fails [OF st this]
    show "analyze w key df questions fx =
         report (classify w e) e (fx1\<lparr>sent := sent fx1 @ [?req]\<rparr>)"
      by (simp add: analyze_def)
  qed
  from st one f have "\<exists>s fx1.
      sample_stage w df (emit processing_spinner fx) = (Inr s, fx1) \<and>
      sent (analyze w key df questions fx) =
        sent fx @ [chat_request key (build_prompt (to_csv s) questions)] \<and>
      (chat_completion_create w (chat_request key (build_prompt (to_csv s) questions)) = Inl e \<longrightarrow>
       analyze w key df questions fx =
         report (classify w e) e
           (fx1\<lparr>sent := sent fx1 @ [chat_request key (build_prompt (to_csv s) questions)]\<rparr>))"
    by blast
  with c i r1 r2 show ?thesis by (intro conjI)
qed

theorem failure_classification_witness:
  "classify refused_world
     \<lparr>cls = OpenAIErrorClass, detail = lit ''Incorrect API key provided''\<rparr> = ServiceError \<and>
   classify refused_world index_error = UnexpectedError \<and>
   analyze refused_world (lit ''sk-test'') example_table (lit ''Summarize.'') no_effects =
     \<lparr>logged = [lit ''OpenAI API error: Incorrect API key provided''],
      shown = [processing_spinner,
               St_error ([10060] @
                 lit '' OpenAI API returned an error: Incorrect API key provided'')],
      sent = [chat_request (lit ''sk-test'')
                (build_prompt (to_csv example_table) (lit ''Summarize.''))]\<rparr>"
proof -
  let ?w = refused_world and ?k = "lit ''sk-test''" and ?q = "lit ''Summarize.''"
  let ?e = "\<lparr>cls = OpenAIErrorClass, detail = lit ''Incorrect API key provided''\<rparr>"
  have imp: "import_ok ?w"
    by (simp add: refused_world_def example_world_def)
  have fam: "isinstance ?e (OpenAIError ?w)"
    using failure_classification [where w = ?w and e = ?e] imp by simp
  have c1: "classify ?w ?e = ServiceError"
    using failure_classification [where w = ?w and e = ?e] fam by simp
  have "\<not> isinstance index_error (OpenAIError ?w)"
    using failure_classification [where w = ?w and e = index_error] imp
    by (simp add: index_error_def)
  then have c2: "classify ?w index_error = UnexpectedError"
    using failure_classification [where w = ?w and e = index_error] by simp
  obtain s fx1 where
    st: "sample_stage ?w example_table (emit processing_spinner no_effects) = (Inr s, fx1)"
    and f: "chat_completion_create ?w (chat_request ?k (build_prompt (to_csv s) ?q)) = Inl ?e \<longrightarrow>
       analyze ?w ?k example_table ?q no_effects =
         report (classify ?w ?e) ?e
           (fx1\<lparr>sent := sent fx1 @ [chat_request ?k (build_prompt (to_csv s) ?q)]\<rparr>)"
    using failure_classification [where w = ?w and e = ?e and df = example_table
        and fx = no_effects and key = ?k and questions = ?q]
    by blast
  have "sample_stage ?w example_table (emit processing_spinner no_effects) =
          (Inr example_table, emit processing_spinner no_effects)"
    by (simp add: sample_stage_def example_table_def)
  with st have s: "s = example_table" and fx1: "fx1 = emit processing_spinner no_effects"
    by simp_all
  have "chat_completion_create ?w (chat_request ?k (build_prompt (to_csv s) ?q)) = Inl ?e"
    by (simp add: refused_world_def)
  with f have "analyze ?w ?k example_table ?q no_effects =
         report (classify ?w ?e) ?e
           (fx1\<lparr>sent := sent fx1 @ [chat_request ?k (build_prompt (to_csv s) ?q)]\<rparr>)"
    by simp
  then have "analyze ?w ?k example_table ?q no_effects =
         report ServiceError ?e
           (fx1\<lparr>sent := sent fx1 @ [chat_request ?k (build_prompt (to_csv s) ?q)]\<rparr>)"
    by (simp only: c1)
  then have "analyze ?w ?k example_table ?q no_effects =
     \<lparr>logged = [lit ''OpenAI API error: Incorrect API key provided''],
      shown = [processing_spinner,
               St_error ([10060] @
                 lit '' OpenAI API returned an error: Incorrect API key provided'')],
      sent = [chat_request ?k (build_prompt (to_csv example_table) ?q)]\<rparr>"
    by (simp add: s fx1 emit_def log_error_def no_effects_def lit_def)
  with c1 c2 show ?thesis by simp
qed

text \<open>
  Claim C9. When the error class of the client library cannot be imported, the name
  \<open>OpenAIError\<close> is bound to \<open>Exception\<close>: every exception is an instance of it, the
  first handler catches every failure of the analysis and reports it in the service
  error category, and the second handler is never reached.
\<close>

theorem fallback_catches_all:
  assumes "\<not> import_ok w"
  shows "OpenAIError w = Exception \<and> isinstance e (OpenAIError w) \<and>
         classify w e = ServiceError \<and> classify w e \<noteq> UnexpectedError \<and>
         (\<forall>fx1. analysis_body w key df questions (emit processing_spinner fx) = (Some e, fx1) \<longrightarrow>
            analyze w key df questions fx =
              emit (St_error ([10060] @ lit '' OpenAI API returned an error: '' @ detail e))
                (log_error (lit ''OpenAI API error: '' @ detail e) fx1))"
proof -
  have b: "OpenAIError w = Exception"
    using assms by (simp add: OpenAIError_def)
  then have i: "isinstance e (OpenAIError w)"
    by (simp add: isinstance_def)
  then have c: "classify w e = ServiceError"
    by (simp add: classify_def)
  have "analyze w key df questions fx =
              emit (St_error ([10060] @ lit '' OpenAI API returned an error: '' @ detail e))
                (log_error (lit ''OpenAI API error: '' @ detail e) fx1)"
    if "analysis_body w key df questions (emit processing_spinner fx) = (Some e, fx1)" for fx1
    using that c by (simp add: analyze_def)
  with b i c show ?thesis by simp
qed

theorem fallback_catches_all_witness:
  "\<not> import_ok fallback_world \<and>
   classify fallback_world index_error = ServiceError \<and>
   analyze fallback_world (lit ''sk-test'') example_table (lit ''Summarize.'') no_effects =
     \<lparr>logged = [lit ''OpenAI API error: list index out of range''],
      shown = [processing_spinner,
               St_error ([10060] @ lit '' OpenAI API returned an error: list index out of range'')],
      sent = [chat_request (lit ''sk-test'')
                (build_prompt (to_csv example_table) (lit ''Summarize.''))]\<rparr>"
proof -
  let ?w = fallback_world and ?k = "lit ''sk-test''" and ?q = "lit ''Summarize.''"
  have imp: "\<not> import_ok ?w"
    by (simp add: fallback_world_def)
  note fb = fallback_catches_all [OF imp, where e = index_error and key = ?k
      and df = example_table and questions = ?q and fx = no_effects]
  have st: "sample_stage ?w example_table (emit processing_spinner no_effects) =
          (Inr example_table, emit processing_spinner no_effects)"
    by (simp add: sample_stage_def example_table_def)
  have reply: "chat_completion_create ?w
                 (chat_request ?k (build_prompt (to_csv example_table) ?q)) = Inr \<lparr>choices = []\<rparr>"
    by (simp add: fallback_world_def no_choice_world_def)
  have "analysis_body ?w ?k example_table ?q (emit processing_spinner no_effects) =
          (Some index_error,
           (emit processing_spinner no_effects)
             \<lparr>sent := sent (emit processing_spinner no_effects) @
                [chat_request ?k (build_prompt (to_csv example_table) ?q)]\<rparr>)"
    by (rule analysis_body_no_choice [OF st reply]) simp
  with fb have "analyze ?w ?k example_table ?q no_effects =
      emit (St_error ([10060] @ lit '' OpenAI API returned an error: '' @ detail index_error))
        (log_error (lit ''OpenAI API error: '' @ detail index_error)
           ((emit processing_spinner no_effects)
             \<lparr>sent := sent (emit processing_spinner no_effects) @
                [chat_request ?k (build_prompt (to_csv example_table) ?q)]\<rparr>))"
    by blast
  then have "analyze ?w ?k example_table ?q no_effects =
     \<lparr>logged = [lit ''OpenAI API error: list index out of range''],
      shown = [processing_spinner,
               St_error ([10060] @ lit '' OpenAI API returned an error: list index out of range'')],
      sent = [chat_request ?k (build_prompt (to_csv example_table) ?q)]\<rparr>"
    by (simp add: emit_def log_error_def no_effects_def index_error_def lit_def)
  with imp fb show ?thesis by simp
qed

section \<open>The credential\<close>

text \<open>
  Claim C5. \<open>load_api_key\<close> returns the contents of the file with the white space at both
  ends removed. When the file does not exist it shows the message of the missing
  credential and halts; on any other error of the read it shows the message of the read
  error and halts. A halt ends the script: the error message is its only effect, nothing
  is logged and no request is sent.
\<close>

theorem load_api_key_spec:
  "(\<forall>c. read_file w p = Inr c \<longrightarrow>
        load_api_key w p fx = Inr (strip c) \<and>
        (\<exists>a b. c = a @ strip c @ b \<and> list_all is_space a \<and> list_all is_space b) \<and>
        (strip c = [] \<or> (\<not> is_space (hd (strip c)) \<and> \<not> is_space (last (strip c))))) \<and>
   (\<forall>e. read_file w p = Inl e \<longrightarrow> cls e = FileNotFoundError \<longrightarrow>
        load_api_key w p fx =
          Inl (MissingCredential, emit (St_error (key_not_found_message p)) fx)) \<and>
   (\<forall>e. read_file w p = Inl e \<longrightarrow> cls e \<noteq> FileNotFoundError \<longrightarrow>
        load_api_key w p fx =
          Inl (CredentialReadError, emit (St_error (key_read_error_message e)) fx)) \<and>
   (\<forall>e. read_file w (lit ''api_key.txt'') = Inl e \<longrightarrow>
        script w =
          Inl (if cls e = FileNotFoundError then MissingCredential else CredentialReadError,
               \<lparr>logged = [],
                shown = [St_error (if cls e = FileNotFoundError
                                   then key_not_found_message (lit ''api_key.txt'')
                                   else key_read_error_message e)],
                sent = []\<rparr>))"
proof (intro conjI allI impI)
  fix c assume "read_file w p = Inr c"
  then show "load_api_key w p fx = Inr (strip c)"
    by (simp add: load_api_key_def)
next
  fix c
  show "\<exists>a b. c = a @ strip c @ b \<and> list_all is_space a \<and> list_all is_space b"
    by (rule strip_decomposition)
next
  fix c
  show "strip c = [] \<or> (\<not> is_space (hd (strip c)) \<and> \<not> is_space (last (strip c)))"
    by (rule strip_ends)
next
  fix e assume "read_file w p = Inl e" and "cls e = FileNotFoundError"
  then show "load_api_key w p fx =
          Inl (MissingCredential, emit (St_error (key_not_found_message p)) fx)"
    by (simp add: load_api_key_def isinstance_def)
next
  fix e assume "read_file w p = Inl e" and "cls e \<noteq> FileNotFoundError"
  then show "load_api_key w p fx =
          Inl (CredentialReadError, emit (St_error (key_read_error_message e)) fx)"
    by (simp add: load_api_key_def isinstance_def)
next
  fix e assume "read_file w (lit ''api_key.txt'') = Inl e"
  then show "script w =
          Inl (if cls e = FileNotFoundError then MissingCredential else CredentialReadError,
               \<lparr>logged = [],
                shown = [St_error (if cls e = FileNotFoundError
                                   then key_not_found_message (lit ''api_key.txt'')
                                   else key_read_error_message e)],
                sent = []\<rparr>)"
    by (simp add: script_def load_api_key_def isinstance_def emit_def no_effects_def)
qed

theorem load_api_key_spec_witness:
  "load_api_key example_world (lit ''api_key.txt'') no_effects = Inr (lit ''sk-test'') \<and>
   script no_key_world =
     Inl (MissingCredential,
          \<lparr>logged = [],
           shown = [St_error (lit ''API key file '' @ [39] @ lit ''api_key.txt'' @ [39] @
                       lit '' not found. Please ensure it exists.'')],
           sent = []\<rparr>)"
proof -
  have r: "read_file example_world (lit ''api_key.txt'') = Inr ([32] @ lit ''sk-test'' @ [10])"
    by (simp add: example_world_def)
  have t: "strip ([32] @ lit ''sk-test'' @ [10]) = lit ''sk-test''"
    by (simp add: strip_def is_space_def lit_def)
  have a: "load_api_key example_world (lit ''api_key.txt'') no_effects = Inr (lit ''sk-test'')"
    using load_api_key_spec [where w = example_world and p = "lit ''api_key.txt''"
        and fx = no_effects] r t
    by simp
  let ?e = "\<lparr>cls = FileNotFoundError, detail = lit ''No such file or directory''\<rparr>"
  have m: "read_file no_key_world (lit ''api_key.txt'') = Inl ?e"
    by (simp add: no_key_world_def)
  have "script no_key_world =
          Inl (if cls ?e = FileNotFoundError then MissingCredential else CredentialReadError,
               \<lparr>logged = [],
                shown = [St_error (if cls ?e = FileNotFoundError
                                   then key_not_found_message (lit ''api_key.txt'')
                                   else key_read_error_message ?e)],
                sent = []\<rparr>)"
    using load_api_key_spec [where w = no_key_world and p = "lit ''api_key.txt''"
        and fx = no_effects] m
    by blast
  then have "script no_key_world =
     Inl (MissingCredential,
          \<lparr>logged = [],
           shown = [St_error (lit ''API key file '' @ [39] @ lit ''api_key.txt'' @ [39] @
                       lit '' not found. Please ensure it exists.'')],
           sent = []\<rparr>)"
    by (simp add: key_not_found_message_def)
  with a show ?thesis by simp
qed

text \<open>
  Claim C8. When the key file exists and holds nothing but white space (an empty file
  included), \<open>load_api_key\<close> returns the empty string and no failure: the script goes on
  with the empty key.
\<close>

theorem blank_key_accepted:
  "(read_file w p = Inr c \<longrightarrow> list_all is_space c \<longrightarrow> load_api_key w p fx = Inr []) \<and>
   (read_file w (lit ''api_key.txt'') = Inr c \<longrightarrow> list_all is_space c \<longrightarrow>
      script w = Inr (footer (upload_stage w [] (no_effects\<lparr>shown := page_top\<rparr>))))"
  by (simp add: load_api_key_def script_def strip_all_space)

theorem blank_key_accepted_witness:
  "load_api_key blank_key_world (lit ''api_key.txt'') no_effects = Inr [] \<and>
   script blank_key_world =
     Inr (footer (upload_stage blank_key_world [] (no_effects\<lparr>shown := page_top\<rparr>))) \<and>
   load_api_key (example_world\<lparr>read_file := (\<lambda>p. Inr [])\<rparr>) (lit ''api_key.txt'') no_effects =
     Inr []"
proof -
  have r: "read_file blank_key_world (lit ''api_key.txt'') = Inr [32, 9, 10]"
    by (simp add: blank_key_world_def)
  have sp: "list_all is_space [32, 9, 10]"
    by (simp add: is_space_def)
  have r0: "read_file (example_world\<lparr>read_file := (\<lambda>p. Inr [])\<rparr>) (lit ''api_key.txt'') = Inr []"
    by simp
  show ?thesis
    using blank_key_accepted [where w = blank_key_world and p = "lit ''api_key.txt''"
        and c = "[32, 9, 10]" and fx = no_effects]
      blank_key_accepted [where w = "example_world\<lparr>read_file := (\<lambda>p. Inr [])\<rparr>"
        and p = "lit ''api_key.txt''" and c = "[]" and fx = no_effects]
      r sp r0
    by simp
qed

section \<open>The preview\<close>

text \<open>
  Claim C10. After a successful parse of the upload the preview shown is the table cut to
  its first 5 rows, and the table itself is unchanged: the analysis that follows works on
  the whole table.
\<close>

theorem preview_first_five:
  "preview df =
     [St_success ([9989] @ lit '' Excel file successfully uploaded and read!''),
      St_dataframe \<lparr>columns = columns df, rows = take 5 (rows df)\<rparr>,
      St_header ([128221] @ lit '' Define Your Questions''),
      St_write (lit ''Enter the questions you want ChatGPT to analyze based on the Excel data.''),
      St_text_area (lit ''Questions'') default_questions,
      St_button (lit ''Analyze with ChatGPT'')] \<and>
   (\<forall>f. uploaded_file w = Some f \<longrightarrow> read_excel w f = Inr df \<longrightarrow>
      upload_stage w key fx =
        (if button_pressed w
         then analyze w key df (questions_input w) (fx\<lparr>shown := shown fx @ preview df\<rparr>)
         else fx\<lparr>shown := shown fx @ preview df\<rparr>))"
  by (simp add: preview_def head_df_def upload_stage_def Let_def)

theorem preview_first_five_witness:
  "preview large_table ! 1 =
     St_dataframe \<lparr>columns = [lit ''n''], rows = replicate 5 [lit ''7'']\<rparr> \<and>
   upload_stage (example_world\<lparr>read_excel := (\<lambda>b. Inr large_table), button_pressed := False\<rparr>)
     (lit ''sk-test'') no_effects =
     no_effects\<lparr>shown := preview large_table\<rparr> \<and>
   upload_stage (example_world\<lparr>read_excel := (\<lambda>b. Inr large_table)\<rparr>)
     (lit ''sk-test'') no_effects =
     analyze (example_world\<lparr>read_excel := (\<lambda>b. Inr large_table)\<rparr>) (lit ''sk-test'')
       large_table (lit ''Summarize.'') (no_effects\<lparr>shown := preview large_table\<rparr>)"
proof -
  let ?w = "example_world\<lparr>read_excel := (\<lambda>b. Inr large_table)\<rparr>"
  have u: "uploaded_file ?w = Some [80, 75]" "uploaded_file (?w\<lparr>button_pressed := False\<rparr>) = Some [80, 75]"
    by (simp_all add: example_world_def)
  have x: "read_excel ?w [80, 75] = Inr large_table"
      "read_excel (?w\<lparr>button_pressed := False\<rparr>) [80, 75] = Inr large_table"
    by simp_all
  have b: "button_pressed ?w" "questions_input ?w = lit ''Summarize.''"
    by (simp_all add: example_world_def)
  have five: "take 5 (rows large_table) = replicate 5 [lit ''7'']" "columns large_table = [lit ''n'']"
    by (simp_all add: large_table_def)
  have sh: "shown no_effects = []"
    by (simp add: no_effects_def)
  have p: "preview large_table ! 1 =
     St_dataframe \<lparr>columns = [lit ''n''], rows = replicate 5 [lit ''7'']\<rparr>"
    using preview_first_five [where df = large_table and w = ?w and key = "lit ''sk-test''"
        and fx = no_effects] five
    by simp
  have off: "upload_stage (?w\<lparr>button_pressed := False\<rparr>) (lit ''sk-test'') no_effects =
     no_effects\<lparr>shown := preview large_table\<rparr>"
    using preview_first_five [where df = large_table and w = "?w\<lparr>button_pressed := False\<rparr>"
        and key = "lit ''sk-test''" and fx = no_effects] u(2) x(2) sh
    by simp
  have on: "upload_stage ?w (lit ''sk-test'') no_effects =
     analyze ?w (lit ''sk-test'') large_table (lit ''Summarize.'')
       (no_effects\<lparr>shown := preview large_table\<rparr>)"
    using preview_first_five [where df = large_table and w = ?w and key = "lit ''sk-test''"
        and fx = no_effects] u(1) x(1) b sh
    by simp
  from p off on show ?thesis by simp
qed

end
